theory Spec2Isabelle
  imports Main
begin

section \<open>Data model of \<open>src/App.jsx\<close>\<close>

text \<open>
  A JavaScript \<open>Error\<close> object is identified with its message. A settled promise is a
  value of a sum type: \<open>Inl\<close> is a rejection (the \<open>throw\<close> of an \<open>async\<close>
  function), \<open>Inr\<close> a fulfilment.
\<close>

datatype error = Error string

fun message :: "error \<Rightarrow> string" where
  "message (Error m) = m"

type_synonym 'a outcome = "error + 'a"

text \<open>The object returned by \<open>api.login\<close>.\<close>

record token_response =
  access_token :: string
  token_type :: string

text \<open>
  The object returned by \<open>api.getMe\<close>. The source field \<open>id\<close> is written \<open>uid\<close>
  (\<open>id\<close> is the identity function of HOL). \<open>enrolled_courses\<close> is optional because
  the dashboard reads it as \<open>user.enrolled_courses || []\<close>.
\<close>

record profile =
  uid :: int
  username :: string
  email :: string
  enrolled_courses :: "int list option"

text \<open>A catalog entry (source field \<open>id\<close> written \<open>cid\<close>) and a recommendation.\<close>

record course =
  cid :: int
  title :: string
  category :: string
  difficulty :: string

record recommendation = course +
  reason :: string

text \<open>
  The token held by the application is a string or \<open>null\<close>. The tests \<open>if (token)\<close>
  and \<open>!token\<close> are JavaScript truthiness: \<open>null\<close> and the empty string are falsy.
\<close>

definition truthy :: "string option \<Rightarrow> bool" where
  "truthy t = (case t of None \<Rightarrow> False | Some s \<Rightarrow> s \<noteq> [])"

section \<open>The mock API service\<close>

definition login :: "string \<Rightarrow> string \<Rightarrow> token_response outcome" where
  "login usr pwd =
     (if usr = ''testuser'' \<and> pwd = ''password''
      then Inr \<lparr>access_token = ''fake-jwt-token'', token_type = ''bearer''\<rparr>
      else Inl (Error ''Invalid credentials''))"

definition getMe :: "string option \<Rightarrow> profile outcome" where
  "getMe tok =
     (if truthy tok
      then Inr \<lparr>uid = 1, username = ''testuser'', email = ''test@example.com'',
                enrolled_courses = Some [101, 103]\<rparr>
      else Inl (Error ''Not authenticated''))"

definition getCourses :: "course list outcome" where
  "getCourses = Inr
     [\<lparr>cid = 101, title = ''Introduction to Python'', category = ''Programming'',
        difficulty = ''Beginner''\<rparr>,
      \<lparr>cid = 102, title = ''Advanced Python'', category = ''Programming'',
        difficulty = ''Advanced''\<rparr>,
      \<lparr>cid = 103, title = ''Data Science with Pandas'', category = ''Data Science'',
        difficulty = ''Intermediate''\<rparr>,
      \<lparr>cid = 104, title = ''Machine Learning Fundamentals'', category = ''Data Science'',
        difficulty = ''Intermediate''\<rparr>,
      \<lparr>cid = 105, title = ''Web Development with React'', category = ''Web Development'',
        difficulty = ''Beginner''\<rparr>]"

definition getRecommendations :: "int \<Rightarrow> string option \<Rightarrow> recommendation list outcome" where
  "getRecommendations userId tok =
     (if truthy tok
      then Inr
        [\<lparr>cid = 102, title = ''Advanced Python'', category = ''Programming'',
           difficulty = ''Advanced'',
           reason = ''Because you are taking '' @ CHR 0x27 # ''Introduction to Python'' @ [CHR 0x27]\<rparr>,
         \<lparr>cid = 104, title = ''Machine Learning Fundamentals'', category = ''Data Science'',
           difficulty = ''Intermediate'',
           reason = ''Because you are taking '' @ CHR 0x27 # ''Data Science with Pandas'' @ [CHR 0x27]\<rparr>]
      else Inl (Error ''Not authenticated''))"

text \<open>
  In the two reasons, \<open>CHR 0x27\<close> is the apostrophe around the course title.
\<close>

text \<open>
  A token is issued when it is the \<open>access_token\<close> of a successful login. The mock has
  one account, so the definition reads the token off that login; \<open>issued_iff\<close> below
  shows that no other pair of credentials yields a token.
\<close>

definition issued :: "string option \<Rightarrow> bool" where
  "issued t =
     (case login ''testuser'' ''password'' of
        Inr d \<Rightarrow> t = Some (access_token d)
      | Inl e \<Rightarrow> False)"

section \<open>Rendering: \<open>CourseCard\<close> and the two lists of \<open>Dashboard\<close>\<close>

text \<open>
  The props of one \<open>CourseCard\<close> element. A prop that the call site does not pass is
  \<open>undefined\<close>, modelled by \<open>None\<close>. The React key is \<open>rec-<id>\<close> in the
  recommendation list and the bare id in the catalog list.
\<close>

datatype card_key = RecKey int | CourseKey int

record card =
  key :: card_key
  card_course :: course
  isEnrolled :: "bool option"
  card_reason :: "string option"

text \<open>\<open>rec => <CourseCard key={`rec-${rec.id}`} course={rec} reason={rec.reason} />\<close>\<close>

definition rec_card :: "recommendation \<Rightarrow> card" where
  "rec_card r =
     \<lparr>key = RecKey (cid r), card_course = course.truncate r, isEnrolled = None,
      card_reason = Some (reason r)\<rparr>"

text \<open>\<open>new Set(user.enrolled_courses || [])\<close>\<close>

definition enrolledCourseIds :: "profile \<Rightarrow> int set" where
  "enrolledCourseIds u = set (case enrolled_courses u of None \<Rightarrow> [] | Some xs \<Rightarrow> xs)"

text \<open>
  \<open>course => <CourseCard key={course.id} course={course}
     isEnrolled={enrolledCourseIds.has(course.id)} />\<close>
\<close>

definition course_card :: "int set \<Rightarrow> course \<Rightarrow> card" where
  "course_card enrolled c =
     \<lparr>key = CourseKey (cid c), card_course = c, isEnrolled = Some (cid c \<in> enrolled),
      card_reason = None\<rparr>"

text \<open>
  What a \<open>CourseCard\<close> shows: the three texts of the course, the highlighted
  background and the ``Enrolled'' line when \<open>isEnrolled\<close> is truthy, and the reason line
  when \<open>reason\<close> is truthy (a missing or empty reason shows nothing).
\<close>

record card_view =
  shown_title :: string
  shown_category :: string
  shown_difficulty :: string
  highlighted :: bool
  enrolled_badge :: bool
  shown_reason :: "string option"

definition CourseCard :: "card \<Rightarrow> card_view" where
  "CourseCard p =
     \<lparr>shown_title = title (card_course p),
      shown_category = category (card_course p),
      shown_difficulty = difficulty (card_course p),
      highlighted = (isEnrolled p = Some True),
      enrolled_badge = (isEnrolled p = Some True),
      shown_reason = (if truthy (card_reason p) then card_reason p else None)\<rparr>"

text \<open>The local state of a mounted \<open>Dashboard\<close>, with its \<open>useState\<close> initial values.\<close>

record dash_state =
  courses :: "course list"
  recommendations :: "recommendation list"
  dash_loading :: bool

definition dash_init :: dash_state where
  "dash_init = \<lparr>courses = [], recommendations = [], dash_loading = True\<rparr>"

text \<open>
  The element tree returned by \<open>Dashboard\<close>: the loading text, or the header (welcome
  line and Logout button) followed by the ``Recommended For You'' cards and the
  ``All Courses'' cards.
\<close>

record dash_view =
  welcome_line :: string
  recommended_for_you :: "card list"
  all_courses :: "card list"

datatype dash_render = LoadingDashboard | Ready dash_view

definition Dashboard :: "profile \<Rightarrow> dash_state \<Rightarrow> dash_render" where
  "Dashboard u d =
     (if dash_loading d then LoadingDashboard
      else Ready
        \<lparr>welcome_line = username u,
         recommended_for_you = map rec_card (recommendations d),
         all_courses = map (course_card (enrolledCourseIds u)) (courses d)\<rparr>)"


section \<open>Promises\<close>

text \<open>
  A promise is pending or settled, and a settled promise never changes.
  \<open>Promise.all\<close> of two promises rejects as soon as one of them is rejected and is
  fulfilled with both values once both are fulfilled. (Below, a fetch is over as soon
  as its \<open>Promise.all\<close> has settled, so the case of two rejections, where the earlier
  one would win, does not arise.)
\<close>

datatype 'a promise = Pending | Fulfilled 'a | Rejected error

fun settle :: "'a outcome \<Rightarrow> 'a promise \<Rightarrow> 'a promise" where
  "settle (Inr v) Pending = Fulfilled v"
| "settle (Inl e) Pending = Rejected e"
| "settle r p = p"

fun Promise_all :: "'a promise \<Rightarrow> 'b promise \<Rightarrow> ('a \<times> 'b) promise" where
  "Promise_all (Rejected e) q = Rejected e"
| "Promise_all p (Rejected e) = Rejected e"
| "Promise_all (Fulfilled a) (Fulfilled b) = Fulfilled (a, b)"
| "Promise_all p q = Pending"

section \<open>Component state\<close>

text \<open>The local state of a mounted \<open>LoginScreen\<close>, with its \<open>useState\<close> initial values.\<close>

record login_state =
  login_username :: string
  login_password :: string
  login_error :: string
  login_loading :: bool

definition login_init :: login_state where
  "login_init =
     \<lparr>login_username = ''testuser'', login_password = ''password'', login_error = [],
      login_loading = False\<rparr>"

text \<open>
  The continuation of \<open>fetchData\<close> after \<open>await Promise.all([...])\<close>, on the state of
  the dashboard: both setters in the \<open>try\<close> branch, nothing in the \<open>catch\<close> branch
  (the error is logged), \<open>setLoading(false)\<close> in \<open>finally\<close>.
\<close>

definition fetchData_settled ::
  "(course list \<times> recommendation list) outcome \<Rightarrow> dash_state \<Rightarrow> dash_state" where
  "fetchData_settled r d =
     (case r of
        Inr (coursesData, recsData) \<Rightarrow> d\<lparr>courses := coursesData, recommendations := recsData\<rparr>
      | Inl e \<Rightarrow> d)
     \<lparr>dash_loading := False\<rparr>"

text \<open>The lines written to the console by \<open>console.log\<close> and \<open>console.error\<close>.\<close>

datatype log_entry =
    AttemptingLogin string
  | FetchingUser "string option"
  | FetchingCourses
  | FetchingRecommendations int "string option"
  | FailedUser error
  | FailedDashboard error

text \<open>
  The requests in flight. A login request remembers the \<open>LoginScreen\<close> instance whose
  setters its continuation holds, and the arguments of \<open>api.login\<close>. A profile request
  remembers the argument of \<open>api.getMe\<close>. A dashboard fetch remembers the
  \<open>Dashboard\<close> instance, the arguments of \<open>api.getRecommendations\<close>, and the two
  promises handed to \<open>Promise.all\<close>.
\<close>

record dash_fetch =
  df_inst :: nat
  df_userId :: int
  df_token :: "string option"
  df_courses :: "course list promise"
  df_recs :: "recommendation list promise"

text \<open>
  The whole application: the three state variables of \<open>App\<close> (\<open>token\<close>, \<open>user\<close>,
  \<open>loading\<close>), the mounted child with its local state, the requests in flight and the
  console. \<open>user_obj\<close> counts the calls of \<open>setUser\<close>: every profile that arrives is a
  fresh object, and the dependency array \<open>[user, token]\<close> of the dashboard compares
  \<open>user\<close> by identity. \<open>app_deps\<close> and \<open>dash_deps\<close> are the dependency values
  seen by the last run of each effect (\<open>None\<close> before the first run). Component
  instances are numbered by \<open>next_inst\<close>.
\<close>

record world =
  token :: "string option"
  user :: "profile option"
  user_obj :: nat
  loading :: bool
  app_deps :: "string option option"
  login_screen :: "(nat \<times> login_state) option"
  dashboard :: "(nat \<times> dash_state) option"
  dash_deps :: "(nat \<times> string option) option"
  next_inst :: nat
  pending_login :: "(nat \<times> string \<times> string) list"
  pending_me :: "string option list"
  pending_dash :: "dash_fetch list"
  console :: "log_entry list"

section \<open>Rendering and effects of \<open>App\<close>\<close>

datatype screen = Authenticating | LoginView | DashboardView

text \<open>The three returns of \<open>App\<close>.\<close>

definition App :: "world \<Rightarrow> screen" where
  "App w =
     (if loading w then Authenticating
      else if \<not> truthy (token w) \<or> user w = None then LoginView
      else DashboardView)"

text \<open>
  After a render, the child that \<open>App\<close> returns is mounted with its initial state if it
  was not mounted, and the other child is unmounted (its local state is lost).
\<close>

definition reconcile :: "world \<Rightarrow> world" where
  "reconcile w =
     (case App w of
        Authenticating \<Rightarrow> w\<lparr>login_screen := None, dashboard := None\<rparr>
      | LoginView \<Rightarrow>
          (case login_screen w of
             Some s \<Rightarrow> w\<lparr>dashboard := None\<rparr>
           | None \<Rightarrow>
               w\<lparr>login_screen := Some (next_inst w, login_init), dashboard := None,
                 next_inst := Suc (next_inst w)\<rparr>)
      | DashboardView \<Rightarrow>
          (case dashboard w of
             Some d \<Rightarrow> w\<lparr>login_screen := None\<rparr>
           | None \<Rightarrow>
               w\<lparr>login_screen := None, dashboard := Some (next_inst w, dash_init),
                 dash_deps := None, next_inst := Suc (next_inst w)\<rparr>))"

text \<open>
  \<open>fetchData\<close> up to its \<open>await\<close>: \<open>setLoading(true)\<close>, then the two calls, which
  log and return promises.
\<close>

definition fetchData_start :: "world \<Rightarrow> world" where
  "fetchData_start w =
     (case (dashboard w, user w) of
        (Some (i, d), Some u) \<Rightarrow>
          w\<lparr>dashboard := Some (i, d\<lparr>dash_loading := True\<rparr>),
            console := console w @ [FetchingCourses, FetchingRecommendations (uid u) (token w)],
            pending_dash := pending_dash w @
              [\<lparr>df_inst = i, df_userId = uid u, df_token = token w,
                df_courses = Pending, df_recs = Pending\<rparr>]\<rparr>
      | _ \<Rightarrow> w)"

text \<open>The effect of \<open>Dashboard\<close>, with dependencies \<open>[user, token]\<close>.\<close>

definition Dashboard_effect :: "world \<Rightarrow> world" where
  "Dashboard_effect w =
     (case dashboard w of
        None \<Rightarrow> w
      | Some d \<Rightarrow>
          if dash_deps w = Some (user_obj w, token w) then w
          else
            (let w1 = w\<lparr>dash_deps := Some (user_obj w, token w)\<rparr>
             in if user w \<noteq> None \<and> truthy (token w) then fetchData_start w1 else w1))"

text \<open>
  \<open>fetchUser\<close> up to its \<open>await\<close>: with a token the profile is requested; without one
  the function falls through to \<open>setLoading(false)\<close>.
\<close>

definition fetchUser_start :: "world \<Rightarrow> world" where
  "fetchUser_start w =
     (if truthy (token w)
      then w\<lparr>console := console w @ [FetchingUser (token w)],
             pending_me := pending_me w @ [token w]\<rparr>
      else w\<lparr>loading := False\<rparr>)"

text \<open>The effect of \<open>App\<close>, with dependencies \<open>[token]\<close>.\<close>

definition App_effect :: "world \<Rightarrow> world" where
  "App_effect w =
     (if app_deps w = Some (token w) then w
      else fetchUser_start (w\<lparr>app_deps := Some (token w)\<rparr>))"

text \<open>
  One commit: render, run the effects whose dependencies changed (the child's before
  the parent's), and render again for the state the effects have set.
\<close>

definition commit :: "world \<Rightarrow> world" where
  "commit w = reconcile (App_effect (Dashboard_effect (reconcile w)))"

text \<open>The application before and after its first commit.\<close>

definition unmounted :: world where
  "unmounted =
     \<lparr>token = None, user = None, user_obj = 0, loading = True, app_deps = None,
      login_screen = None, dashboard = None, dash_deps = None, next_inst = 0,
      pending_login = [], pending_me = [], pending_dash = [], console = []\<rparr>"

definition initial :: world where
  "initial = commit unmounted"

section \<open>Event handlers and continuations\<close>

text \<open>A state setter of a component instance does nothing once the instance is unmounted.\<close>

definition on_login_screen :: "nat \<Rightarrow> (login_state \<Rightarrow> login_state) \<Rightarrow> world \<Rightarrow> world" where
  "on_login_screen i f w =
     (case login_screen w of
        Some (j, s) \<Rightarrow> if j = i then w\<lparr>login_screen := Some (j, f s)\<rparr> else w
      | None \<Rightarrow> w)"

definition on_dashboard :: "nat \<Rightarrow> (dash_state \<Rightarrow> dash_state) \<Rightarrow> world \<Rightarrow> world" where
  "on_dashboard i f w =
     (case dashboard w of
        Some (j, d) \<Rightarrow> if j = i then w\<lparr>dashboard := Some (j, f d)\<rparr> else w
      | None \<Rightarrow> w)"

text \<open>
  \<open>handleLogin\<close> up to its \<open>await\<close>. The form is submitted through its button, which is
  disabled while \<open>loading\<close>.
\<close>

definition handleLogin_start :: "world \<Rightarrow> world" where
  "handleLogin_start w =
     (case login_screen w of
        None \<Rightarrow> w
      | Some (i, s) \<Rightarrow>
          if login_loading s then w
          else
            w\<lparr>login_screen := Some (i, s\<lparr>login_loading := True, login_error := []\<rparr>),
              console := console w @ [AttemptingLogin (login_username s)],
              pending_login := pending_login w @ [(i, login_username s, login_password s)]\<rparr>)"

text \<open>The rest of \<open>handleLogin\<close>: \<open>try\<close>, \<open>catch\<close>, \<open>finally\<close>.\<close>

definition handleLogin_resume :: "nat \<Rightarrow> token_response outcome \<Rightarrow> world \<Rightarrow> world" where
  "handleLogin_resume i r w =
     on_login_screen i (\<lambda>s. s\<lparr>login_loading := False\<rparr>)
       (case r of
          Inr data \<Rightarrow> w\<lparr>token := Some (access_token data)\<rparr>
        | Inl err \<Rightarrow> on_login_screen i (\<lambda>s. s\<lparr>login_error := message err\<rparr>) w)"

text \<open>The rest of \<open>fetchUser\<close>: \<open>try\<close>, \<open>catch\<close>, then \<open>setLoading(false)\<close>.\<close>

definition fetchUser_resume :: "profile outcome \<Rightarrow> world \<Rightarrow> world" where
  "fetchUser_resume r w =
     (case r of
        Inr userData \<Rightarrow> w\<lparr>user := Some userData, user_obj := Suc (user_obj w)\<rparr>
      | Inl e \<Rightarrow> w\<lparr>console := console w @ [FailedUser e], token := None\<rparr>)
     \<lparr>loading := False\<rparr>"

text \<open>The rest of \<open>fetchData\<close>, on the dashboard instance that started it.\<close>

definition fetchData_resume ::
  "nat \<Rightarrow> (course list \<times> recommendation list) outcome \<Rightarrow> world \<Rightarrow> world" where
  "fetchData_resume i r w =
     on_dashboard i (fetchData_settled r)
       (case r of
          Inr v \<Rightarrow> w
        | Inl e \<Rightarrow> w\<lparr>console := console w @ [FailedDashboard e]\<rparr>)"

text \<open>
  The Logout button, \<open>onClick={() => setToken(null)}\<close>. It exists only in the element
  tree of a dashboard that is not loading.
\<close>

definition logout_click :: "world \<Rightarrow> world" where
  "logout_click w =
     (case (dashboard w, user w) of
        (Some (i, d), Some u) \<Rightarrow>
          (case Dashboard u d of
             Ready v \<Rightarrow> w\<lparr>token := None\<rparr>
           | LoadingDashboard \<Rightarrow> w)
      | _ \<Rightarrow> w)"

definition remove_nth :: "nat \<Rightarrow> 'a list \<Rightarrow> 'a list" where
  "remove_nth k xs = take k xs @ drop (Suc k) xs"

text \<open>
  One of the two promises of the \<open>k\<close>-th dashboard fetch has changed: while
  \<open>Promise.all\<close> is pending the fetch stays in flight; once it settles the
  continuation runs and the fetch is over (a later answer to the other request has no
  listener).
\<close>

definition dash_progress :: "nat \<Rightarrow> dash_fetch \<Rightarrow> world \<Rightarrow> world" where
  "dash_progress k f w =
     (case Promise_all (df_courses f) (df_recs f) of
        Pending \<Rightarrow> w\<lparr>pending_dash := (pending_dash w)[k := f]\<rparr>
      | Fulfilled v \<Rightarrow>
          fetchData_resume (df_inst f) (Inr v)
            (w\<lparr>pending_dash := remove_nth k (pending_dash w)\<rparr>)
      | Rejected e \<Rightarrow>
          fetchData_resume (df_inst f) (Inl e)
            (w\<lparr>pending_dash := remove_nth k (pending_dash w)\<rparr>))"

text \<open>
  The events: the user types, submits the form or clicks Logout, or the service answers
  the \<open>k\<close>-th request in flight of some kind. Every call of the API is awaited, so
  its answer is an event of its own, and other events may come first. The answer
  carries the outcome, so that a statement can range over every way a request may be
  answered; the answers of the mock are the values of \<open>login\<close>, \<open>getMe\<close>,
  \<open>getCourses\<close> and \<open>getRecommendations\<close> at the remembered arguments. An event
  that is not possible in the current state (no such element on screen, no such
  request) changes nothing.
\<close>

datatype event =
    ChangeUsername string
  | ChangePassword string
  | Submit
  | ClickLogout
  | LoginSettles nat "token_response outcome"
  | MeSettles nat "profile outcome"
  | CoursesSettle nat "course list outcome"
  | RecsSettle nat "recommendation list outcome"

fun handler :: "event \<Rightarrow> world \<Rightarrow> world" where
  "handler (ChangeUsername v) w =
     (case login_screen w of
        Some (i, s) \<Rightarrow> w\<lparr>login_screen := Some (i, s\<lparr>login_username := v\<rparr>)\<rparr>
      | None \<Rightarrow> w)"
| "handler (ChangePassword v) w =
     (case login_screen w of
        Some (i, s) \<Rightarrow> w\<lparr>login_screen := Some (i, s\<lparr>login_password := v\<rparr>)\<rparr>
      | None \<Rightarrow> w)"
| "handler Submit w = handleLogin_start w"
| "handler ClickLogout w = logout_click w"
| "handler (LoginSettles k r) w =
     (if k < length (pending_login w)
      then handleLogin_resume (fst (pending_login w ! k)) r
             (w\<lparr>pending_login := remove_nth k (pending_login w)\<rparr>)
      else w)"
| "handler (MeSettles k r) w =
     (if k < length (pending_me w)
      then fetchUser_resume r (w\<lparr>pending_me := remove_nth k (pending_me w)\<rparr>)
      else w)"
| "handler (CoursesSettle k r) w =
     (if k < length (pending_dash w)
      then dash_progress k
             ((pending_dash w ! k)\<lparr>df_courses := settle r (df_courses (pending_dash w ! k))\<rparr>) w
      else w)"
| "handler (RecsSettle k r) w =
     (if k < length (pending_dash w)
      then dash_progress k
             ((pending_dash w ! k)\<lparr>df_recs := settle r (df_recs (pending_dash w ! k))\<rparr>) w
      else w)"

definition step :: "event \<Rightarrow> world \<Rightarrow> world" where
  "step ev w = commit (handler ev w)"

definition run :: "event list \<Rightarrow> world \<Rightarrow> world" where
  "run evs w = foldl (\<lambda>w ev. step ev w) w evs"


section \<open>Committed states and three scenarios\<close>

text \<open>
  What holds of the application between two events: \<open>App\<close> is not loading (it stops
  loading in its first commit and never starts again), each effect has seen the current
  values of its dependencies, and the mounted child is the one \<open>App\<close> returns.
\<close>

definition stable :: "world \<Rightarrow> bool" where
  "stable w =
     (\<not> loading w \<and> app_deps w = Some (token w)
      \<and> (login_screen w = None) = (App w \<noteq> LoginView)
      \<and> (dashboard w = None) = (App w \<noteq> DashboardView)
      \<and> (dashboard w = None \<or> dash_deps w = Some (user_obj w, token w)))"

text \<open>
  Signing in with the prefilled credentials, every answer being the one the mock API
  gives: the form is submitted, the login is answered, the profile arrives.
\<close>

definition signin :: "event list" where
  "signin =
     [Submit,
      LoginSettles 0 (login ''testuser'' ''password''),
      MeSettles 0 (getMe (Some ''fake-jwt-token''))]"

text \<open>Then the catalog and the recommendations arrive: the dashboard is ready.\<close>

definition session :: "event list" where
  "session = signin @
     [CoursesSettle 0 getCourses,
      RecsSettle 0 (getRecommendations 1 (Some ''fake-jwt-token''))]"


section \<open>The service: tokens, profile, catalog, recommendations\<close>

lemma issued_iff:
  "issued t \<longleftrightarrow> (\<exists>usr pwd d. login usr pwd = Inr d \<and> t = Some (access_token d))"
  by (auto simp: issued_def login_def split: if_splits)

text \<open>
  Claim C3. The happy path: logging in as \<open>testuser\<close> with \<open>password\<close> succeeds and
  issues a token; the profile fetched with that token has id 1, username
  \<open>testuser\<close> and the enrolled ids 101 and 103; the catalog has exactly five courses;
  the recommendations fetched with that token are exactly two, each with a non-empty
  reason.
\<close>

theorem happy_path:
  "\<exists>d p cs rs.
      login ''testuser'' ''password'' = Inr d
    \<and> getMe (Some (access_token d)) = Inr p
    \<and> uid p = 1 \<and> username p = ''testuser'' \<and> enrolledCourseIds p = {101, 103}
    \<and> getCourses = Inr cs \<and> length cs = 5
    \<and> getRecommendations (uid p) (Some (access_token d)) = Inr rs \<and> length rs = 2
    \<and> list_all (\<lambda>r. reason r \<noteq> []) rs"
  by (auto simp: login_def getMe_def getCourses_def getRecommendations_def truthy_def
      enrolledCourseIds_def)

text \<open>
  Claim C5, as stated, read with ``invalid'' as ``not issued by a login'': the profile
  fetch would fail exactly for \<open>null\<close> and for tokens that were never issued. It does
  not: a string that no login ever returned is accepted.
\<close>

theorem token_check_counterexample:
  "\<not> (isl (getMe (Some ''never-issued'')) \<longleftrightarrow>
        (Some ''never-issued'' = None \<or> \<not> issued (Some ''never-issued'')))"
  by (simp add: getMe_def truthy_def issued_def login_def)

text \<open>
  Claim C5, amended. The profile fetch fails, with the error \<open>Not authenticated\<close>,
  exactly when the token is \<open>null\<close> or the empty string, and succeeds for every other
  token; the recommendation fetch fails under exactly the same condition and with the
  same error.
\<close>

theorem token_presence_check:
  "(getMe tok = Inl (Error ''Not authenticated'') \<longleftrightarrow> tok = None \<or> tok = Some [])
   \<and> (isl (getMe tok) \<longleftrightarrow> tok = None \<or> tok = Some [])
   \<and> (isl (getRecommendations userId tok) \<longleftrightarrow> isl (getMe tok))
   \<and> (getRecommendations userId tok = Inl (Error ''Not authenticated'')
        \<longleftrightarrow> getMe tok = Inl (Error ''Not authenticated''))"
  by (cases tok) (simp_all add: getMe_def getRecommendations_def truthy_def)

text \<open>
  Claim C9. Every recommendation returned by the service has the category of some
  catalog course whose id is among the enrolled ids of the profile.
\<close>

theorem recommendations_category_affinity:
  "getMe tok = Inr p \<Longrightarrow> getCourses = Inr cs \<Longrightarrow> getRecommendations userId tok = Inr rs \<Longrightarrow>
   r \<in> set rs \<Longrightarrow>
   \<exists>c \<in> set cs. cid c \<in> enrolledCourseIds p \<and> category c = category r"
  by (auto simp: getMe_def getCourses_def getRecommendations_def enrolledCourseIds_def
      split: if_splits)

theorem recommendations_category_affinity_witness:
  "getMe (Some ''fake-jwt-token'') = Inr (projr (getMe (Some ''fake-jwt-token'')))
   \<and> getCourses = Inr (projr getCourses)
   \<and> getRecommendations 1 (Some ''fake-jwt-token'')
       = Inr (projr (getRecommendations 1 (Some ''fake-jwt-token'')))
   \<and> hd (projr (getRecommendations 1 (Some ''fake-jwt-token'')))
       \<in> set (projr (getRecommendations 1 (Some ''fake-jwt-token'')))
   \<and> (\<exists>c \<in> set (projr getCourses).
         cid c \<in> enrolledCourseIds (projr (getMe (Some ''fake-jwt-token'')))
         \<and> category c
             = category (hd (projr (getRecommendations 1 (Some ''fake-jwt-token'')))))"
proof -
  have me: "getMe (Some ''fake-jwt-token'') = Inr (projr (getMe (Some ''fake-jwt-token'')))"
    by (simp add: getMe_def truthy_def)
  have cs: "getCourses = Inr (projr getCourses)"
    by (simp add: getCourses_def)
  have rs: "getRecommendations 1 (Some ''fake-jwt-token'')
              = Inr (projr (getRecommendations 1 (Some ''fake-jwt-token'')))"
    by (simp add: getRecommendations_def truthy_def)
  have r: "hd (projr (getRecommendations 1 (Some ''fake-jwt-token'')))
             \<in> set (projr (getRecommendations 1 (Some ''fake-jwt-token'')))"
    by (simp add: getRecommendations_def truthy_def)
  from recommendations_category_affinity [OF me cs rs r] me cs rs r
  show ?thesis by blast
qed

text \<open>
  Claim C10. Every non-empty token string, issued or not, is accepted by the profile
  fetch and by the recommendation fetch, and any two such tokens get identical results.
\<close>

theorem any_nonempty_token_accepted:
  "t \<noteq> [] \<Longrightarrow> t' \<noteq> [] \<Longrightarrow>
     (\<exists>p. getMe (Some t) = Inr p)
   \<and> (\<exists>rs. getRecommendations userId (Some t) = Inr rs)
   \<and> getMe (Some t) = getMe (Some t')
   \<and> getRecommendations userId (Some t) = getRecommendations userId (Some t')"
  by (simp add: getMe_def getRecommendations_def truthy_def)

theorem any_nonempty_token_accepted_witness:
  "''forged'' \<noteq> [] \<and> ''fake-jwt-token'' \<noteq> [] \<and> \<not> issued (Some ''forged'')
   \<and> (\<exists>p. getMe (Some ''forged'') = Inr p)
   \<and> (\<exists>rs. getRecommendations 1 (Some ''forged'') = Inr rs)
   \<and> getMe (Some ''forged'') = getMe (Some ''fake-jwt-token'')
   \<and> getRecommendations 1 (Some ''forged'') = getRecommendations 1 (Some ''fake-jwt-token'')"
proof -
  have a: "''forged'' \<noteq> []" and b: "''fake-jwt-token'' \<noteq> []"
    by simp_all
  have c: "\<not> issued (Some ''forged'')"
    by (simp add: issued_def login_def)
  from any_nonempty_token_accepted [OF a b, of 1] a b c show ?thesis
    by blast
qed

section \<open>The dashboard lists\<close>

text \<open>
  Claim C1. Once the catalog \<open>cs\<close> and the recommendations \<open>rs\<close> have arrived, the
  dashboard renders one card per catalog course in the order of \<open>cs\<close> and one card per
  recommendation in the order of \<open>rs\<close>, each recommendation card carrying the reason of
  its recommendation unchanged; no recommendation is dropped, whatever the enrolled ids.
\<close>

theorem aggregation_preserves_order:
  "\<exists>v. Dashboard u (fetchData_settled (Inr (cs, rs)) d) = Ready v
     \<and> map card_course (all_courses v) = cs
     \<and> map card_course (recommended_for_you v) = map course.truncate rs
     \<and> map card_reason (recommended_for_you v) = map (\<lambda>r. Some (reason r)) rs
     \<and> map (\<lambda>p. shown_title (CourseCard p)) (all_courses v) = map title cs
     \<and> map (\<lambda>p. shown_title (CourseCard p)) (recommended_for_you v) = map title rs
     \<and> map (\<lambda>p. shown_reason (CourseCard p)) (recommended_for_you v)
         = map (\<lambda>r. if reason r = [] then None else Some (reason r)) rs"
  by (simp add: Dashboard_def fetchData_settled_def rec_card_def course_card_def CourseCard_def
      truthy_def course.truncate_def comp_def)

text \<open>
  Claim C2. Every catalog course is marked \<open>isEnrolled\<close> exactly when its id occurs
  in \<open>enrolled_courses\<close> of the profile (no course is marked when the profile has no
  such field), that is, exactly when its id is in the set \<open>enrolledCourseIds\<close>, which
  for a profile with the enrolled ids \<open>xs\<close> is the set of the elements of \<open>xs\<close>;
  the ``Enrolled'' line is shown for exactly those courses; storing the same data
  again, or aggregating the rendered courses again, gives the same marking.
\<close>

theorem isEnrolled_marking:
  "\<exists>v. Dashboard u (fetchData_settled (Inr (cs, rs)) d) = Ready v
     \<and> map card_course (all_courses v) = cs
     \<and> map isEnrolled (all_courses v)
         = map (\<lambda>c. Some (case enrolled_courses u of
                             None \<Rightarrow> False
                           | Some xs \<Rightarrow> cid c \<in> set xs)) cs
     \<and> enrolledCourseIds (u\<lparr>enrolled_courses := Some xs\<rparr>) = set xs
     \<and> enrolledCourseIds (u\<lparr>enrolled_courses := None\<rparr>) = {}
     \<and> map isEnrolled (all_courses v) = map (\<lambda>c. Some (cid c \<in> enrolledCourseIds u)) cs
     \<and> map (\<lambda>p. enrolled_badge (CourseCard p)) (all_courses v)
         = map (\<lambda>c. cid c \<in> enrolledCourseIds u) cs
     \<and> map (\<lambda>p. enrolled_badge (CourseCard p)) (all_courses v)
         = map (\<lambda>c. case enrolled_courses u of
                       None \<Rightarrow> False
                     | Some xs \<Rightarrow> cid c \<in> set xs) cs
     \<and> fetchData_settled (Inr (cs, rs)) (fetchData_settled (Inr (cs, rs)) d)
         = fetchData_settled (Inr (cs, rs)) d
     \<and> Dashboard u (fetchData_settled (Inr (map card_course (all_courses v), rs))
          (fetchData_settled (Inr (cs, rs)) d)) = Ready v"
  by (cases "enrolled_courses u")
    (simp_all add: Dashboard_def fetchData_settled_def course_card_def CourseCard_def comp_def
      enrolledCourseIds_def)


section \<open>Committed states are stable\<close>

lemma reconcile_id: "stable w \<Longrightarrow> reconcile w = w"
  by (cases w) (auto simp: stable_def reconcile_def split: screen.splits option.splits)

lemma Dashboard_effect_id: "stable w \<Longrightarrow> Dashboard_effect w = w"
  by (auto simp: stable_def Dashboard_effect_def split: option.splits)

lemma App_effect_id: "stable w \<Longrightarrow> App_effect w = w"
  by (simp add: stable_def App_effect_def)

lemma commit_id: "stable w \<Longrightarrow> commit w = w"
  by (simp add: commit_def reconcile_id Dashboard_effect_id App_effect_id)

lemma reconcile_fields:
  "loading (reconcile w) = loading w" "token (reconcile w) = token w"
  "user (reconcile w) = user w" "user_obj (reconcile w) = user_obj w"
  "app_deps (reconcile w) = app_deps w" "pending_me (reconcile w) = pending_me w"
  "pending_login (reconcile w) = pending_login w" "pending_dash (reconcile w) = pending_dash w"
  "console (reconcile w) = console w"
  by (simp_all add: reconcile_def split: screen.splits option.splits)

lemma reconcile_mounted:
  "(login_screen (reconcile w) = None) = (App w \<noteq> LoginView)"
  "(dashboard (reconcile w) = None) = (App w \<noteq> DashboardView)"
  by (simp_all add: reconcile_def split: screen.splits option.splits)

lemma Dashboard_effect_fields:
  "loading (Dashboard_effect w) = loading w" "token (Dashboard_effect w) = token w"
  "user (Dashboard_effect w) = user w" "user_obj (Dashboard_effect w) = user_obj w"
  "app_deps (Dashboard_effect w) = app_deps w" "pending_me (Dashboard_effect w) = pending_me w"
  "pending_login (Dashboard_effect w) = pending_login w"
  "login_screen (Dashboard_effect w) = login_screen w"
  "(dashboard (Dashboard_effect w) = None) = (dashboard w = None)"
  by (simp_all add: Dashboard_effect_def fetchData_start_def Let_def split: option.splits prod.splits)

lemma Dashboard_effect_deps:
  "dashboard (Dashboard_effect w) = None \<or>
   dash_deps (Dashboard_effect w) = Some (user_obj w, token w)"
  by (simp add: Dashboard_effect_def fetchData_start_def Let_def split: option.splits prod.splits)

lemma App_effect_fields:
  "\<not> loading w \<Longrightarrow> \<not> loading (App_effect w)" "token (App_effect w) = token w"
  "user (App_effect w) = user w" "user_obj (App_effect w) = user_obj w"
  "app_deps (App_effect w) = Some (token w)"
  "pending_login (App_effect w) = pending_login w"
  "pending_dash (App_effect w) = pending_dash w"
  "login_screen (App_effect w) = login_screen w"
  "dashboard (App_effect w) = dashboard w"
  "dash_deps (App_effect w) = dash_deps w"
  by (simp_all add: App_effect_def fetchUser_start_def)

lemma effects_stable:
  assumes "\<not> loading w"
  shows "stable (App_effect (Dashboard_effect (reconcile w)))"
proof -
  let ?w1 = "reconcile w" and ?w2 = "Dashboard_effect (reconcile w)"
  let ?w3 = "App_effect (Dashboard_effect (reconcile w))"
  have l: "\<not> loading ?w3"
    using assms by (simp add: App_effect_fields Dashboard_effect_fields reconcile_fields)
  have A: "App ?w3 = App w"
    using assms l by (simp add: App_def App_effect_fields Dashboard_effect_fields reconcile_fields)
  have m1: "(login_screen ?w3 = None) = (App ?w3 \<noteq> LoginView)"
    by (simp add: A App_effect_fields Dashboard_effect_fields reconcile_mounted)
  have m2: "(dashboard ?w3 = None) = (App ?w3 \<noteq> DashboardView)"
    by (simp add: A App_effect_fields Dashboard_effect_fields reconcile_mounted)
  have d: "dashboard ?w3 = None \<or> dash_deps ?w3 = Some (user_obj ?w3, token ?w3)"
    using Dashboard_effect_deps [of ?w1]
    by (simp add: App_effect_fields Dashboard_effect_fields reconcile_fields)
  have a: "app_deps ?w3 = Some (token ?w3)"
    by (simp add: App_effect_fields)
  from l a m1 m2 d show ?thesis
    unfolding stable_def by blast
qed

lemma commit_stable: "\<not> loading w \<Longrightarrow> stable (commit w)"
  by (simp add: commit_def effects_stable reconcile_id)

lemma commit_idem: "\<not> loading w \<Longrightarrow> commit (commit w) = commit w"
  by (rule commit_id) (rule commit_stable)

lemma handler_loading: "\<not> loading w \<Longrightarrow> \<not> loading (handler ev w)"
  by (cases ev)
    (simp_all add: handleLogin_start_def logout_click_def handleLogin_resume_def on_login_screen_def
      fetchUser_resume_def dash_progress_def fetchData_resume_def on_dashboard_def Let_def
      split: option.splits sum.splits dash_render.splits promise.splits prod.splits)

lemma stable_initial: "stable initial"
  by (simp add: initial_def unmounted_def stable_def commit_def reconcile_def Dashboard_effect_def
      App_effect_def App_def fetchUser_start_def truthy_def)

lemma stable_step: "stable w \<Longrightarrow> stable (step ev w)"
  unfolding step_def by (rule commit_stable, rule handler_loading) (simp add: stable_def)

lemma stable_run: "stable w \<Longrightarrow> stable (run evs w)"
  unfolding run_def by (induction evs arbitrary: w) (simp_all add: stable_step)

lemma App_eq:
  "(App w = Authenticating) = loading w"
  "(App w = LoginView) = (\<not> loading w \<and> (\<not> truthy (token w) \<or> user w = None))"
  "(App w = DashboardView) = (\<not> loading w \<and> truthy (token w) \<and> user w \<noteq> None)"
  by (simp_all add: App_def)

lemma stable_view:
  assumes "stable w"
  shows "login_screen w = Some x \<Longrightarrow> App w = LoginView"
    and "dashboard w = Some y \<Longrightarrow> App w = DashboardView"
    and "dashboard w = Some y \<Longrightarrow> truthy (token w) \<and> user w \<noteq> None \<and> login_screen w = None"
    and "\<not> truthy (token w) \<Longrightarrow> dashboard w = None \<and> login_screen w \<noteq> None"
  using assms by (auto simp: stable_def App_eq)

lemma step_Submit:
  assumes "stable w" and "login_screen w = Some (i, s)" and "\<not> login_loading s"
  shows "step Submit w =
           w\<lparr>login_screen := Some (i, s\<lparr>login_loading := True, login_error := []\<rparr>),
             console := console w @ [AttemptingLogin (login_username s)],
             pending_login := pending_login w @ [(i, login_username s, login_password s)]\<rparr>"
proof -
  let ?w' = "w\<lparr>login_screen := Some (i, s\<lparr>login_loading := True, login_error := []\<rparr>),
             console := console w @ [AttemptingLogin (login_username s)],
             pending_login := pending_login w @ [(i, login_username s, login_password s)]\<rparr>"
  have h: "handler Submit w = ?w'"
    using assms by (simp add: handleLogin_start_def)
  have "stable ?w'"
    using assms by (simp add: stable_def App_eq)
  then show ?thesis
    unfolding step_def h by (rule commit_id)
qed

lemma step_LoginSettles_rejected:
  assumes "stable w" and "k < length (pending_login w)"
    and "fst (pending_login w ! k) = i" and "login_screen w = Some (i, s)"
  shows "step (LoginSettles k (Inl e)) w =
           w\<lparr>pending_login := remove_nth k (pending_login w),
             login_screen := Some (i, s\<lparr>login_error := message e, login_loading := False\<rparr>)\<rparr>"
proof -
  let ?w' = "w\<lparr>pending_login := remove_nth k (pending_login w),
             login_screen := Some (i, s\<lparr>login_error := message e, login_loading := False\<rparr>)\<rparr>"
  have h: "handler (LoginSettles k (Inl e)) w = ?w'"
    using assms by (simp add: handleLogin_resume_def on_login_screen_def)
  have "stable ?w'"
    using assms by (simp add: stable_def App_eq)
  then show ?thesis
    unfolding step_def h by (rule commit_id)
qed

lemma login_rejects:
  "\<not> (usr = ''testuser'' \<and> pwd = ''password'') \<Longrightarrow> login usr pwd = Inl (Error ''Invalid credentials'')"
  by (simp add: login_def)

section \<open>Evaluating the scenarios\<close>

lemmas api_defs = login_def getMe_def getCourses_def getRecommendations_def truthy_def

lemmas machine_defs =
  step_def commit_def reconcile_def App_def Dashboard_effect_def App_effect_def
  fetchData_start_def fetchUser_start_def on_login_screen_def on_dashboard_def
  handleLogin_start_def handleLogin_resume_def fetchUser_resume_def fetchData_resume_def
  fetchData_settled_def logout_click_def Dashboard_def remove_nth_def dash_progress_def
  login_init_def dash_init_def Let_def

lemma run_Nil: "run [] w = w"
  by (simp add: run_def)

lemma run_Cons: "run (ev # evs) w = run evs (step ev w)"
  by (simp add: run_def)

lemma run_append: "run (evs @ evs') w = run evs' (run evs w)"
  by (simp add: run_def)

lemma initial_eq:
  "initial =
     \<lparr>token = None, user = None, user_obj = 0, loading = False, app_deps = Some None,
      login_screen = Some (0, login_init), dashboard = None, dash_deps = None, next_inst = 1,
      pending_login = [], pending_me = [], pending_dash = [], console = []\<rparr>"
  by (simp add: initial_def unmounted_def machine_defs api_defs)

lemma signin_state:
  "run signin initial =
     \<lparr>token = Some ''fake-jwt-token'',
      user = Some (projr (getMe (Some ''fake-jwt-token''))),
      user_obj = 1, loading = False, app_deps = Some (Some ''fake-jwt-token''),
      login_screen = None, dashboard = Some (1, dash_init),
      dash_deps = Some (1, Some ''fake-jwt-token''), next_inst = 2,
      pending_login = [], pending_me = [],
      pending_dash =
        [\<lparr>df_inst = 1, df_userId = 1, df_token = Some ''fake-jwt-token'',
          df_courses = Pending, df_recs = Pending\<rparr>],
      console =
        [AttemptingLogin ''testuser'', FetchingUser (Some ''fake-jwt-token''),
         FetchingCourses, FetchingRecommendations 1 (Some ''fake-jwt-token'')]\<rparr>"
  by (simp add: signin_def run_Nil run_Cons initial_eq machine_defs api_defs)

lemma session_state:
  "run session initial =
     \<lparr>token = Some ''fake-jwt-token'',
      user = Some (projr (getMe (Some ''fake-jwt-token''))),
      user_obj = 1, loading = False, app_deps = Some (Some ''fake-jwt-token''),
      login_screen = None,
      dashboard = Some (1,
        \<lparr>courses = projr getCourses,
         recommendations = projr (getRecommendations 1 (Some ''fake-jwt-token'')),
         dash_loading = False\<rparr>),
      dash_deps = Some (1, Some ''fake-jwt-token''), next_inst = 2,
      pending_login = [], pending_me = [], pending_dash = [],
      console =
        [AttemptingLogin ''testuser'', FetchingUser (Some ''fake-jwt-token''),
         FetchingCourses, FetchingRecommendations 1 (Some ''fake-jwt-token'')]\<rparr>"
  by (simp add: session_def run_append signin_state run_Nil run_Cons machine_defs api_defs)


lemma wrongpass_state:
  "run [ChangePassword ''wrongpass''] initial =
     \<lparr>token = None, user = None, user_obj = 0, loading = False, app_deps = Some None,
      login_screen = Some (0, login_init\<lparr>login_password := ''wrongpass''\<rparr>),
      dashboard = None, dash_deps = None, next_inst = 1,
      pending_login = [], pending_me = [], pending_dash = [], console = []\<rparr>"
  by (simp add: run_Nil run_Cons initial_eq machine_defs api_defs)

section \<open>Single events in a stable state\<close>

lemma step_ClickLogout:
  assumes "stable w" and "dashboard w = Some (i, d)" and "\<not> dash_loading d"
  shows "step ClickLogout w =
           w\<lparr>token := None, app_deps := Some None,
             login_screen := Some (next_inst w, login_init), dashboard := None,
             next_inst := Suc (next_inst w)\<rparr>"
proof -
  from assms(1,2) have v: "truthy (token w)" "user w \<noteq> None" "login_screen w = None"
    by (simp_all add: stable_view)
  from v(2) obtain u where u: "user w = Some u"
    by blast
  have l: "\<not> loading w" and a: "app_deps w = Some (token w)"
    using assms(1) by (simp_all add: stable_def)
  have t: "token w \<noteq> None"
    using v(1) by (cases "token w") (simp_all add: truthy_def)
  have h: "handler ClickLogout w = w\<lparr>token := None\<rparr>"
    using assms u by (simp add: logout_click_def Dashboard_def)
  have r: "reconcile (w\<lparr>token := None\<rparr>) =
             w\<lparr>token := None, login_screen := Some (next_inst w, login_init), dashboard := None,
               next_inst := Suc (next_inst w)\<rparr>"
    using l v(3) by (simp add: reconcile_def App_def truthy_def)
  show ?thesis
    unfolding step_def h commit_def r
    using l a t
    by (cases w) (simp add: Dashboard_effect_def App_effect_def fetchUser_start_def truthy_def
        reconcile_def App_def)
qed








section \<open>Login with wrong credentials\<close>

text \<open>
  Claim C4. In any state the application can reach in which the login form is on screen
  and idle, submitting any pair of credentials other than \<open>testuser\<close> and
  \<open>password\<close> makes the login fail with \<open>Invalid credentials\<close>; once that answer
  has arrived the token and the user are what they were (so a logged-out session stays
  logged out and the login screen stays), no profile request has been made (none is in
  flight, and the console shows the login attempt only), and the form shows the
  message.
\<close>

theorem invalid_credentials_stay_logged_out:
  assumes w: "w = run evs initial"
    and scr: "login_screen w = Some (i, s)" and idle: "\<not> login_loading s"
    and bad: "\<not> (login_username s = ''testuser'' \<and> login_password s = ''password'')"
    and w': "w' = step (LoginSettles (length (pending_login w))
                         (login (login_username s) (login_password s))) (step Submit w)"
  shows "login (login_username s) (login_password s) = Inl (Error ''Invalid credentials'')
       \<and> token w' = token w \<and> user w' = user w
       \<and> pending_me w' = pending_me w \<and> pending_login w' = pending_login w
       \<and> console w' = console w @ [AttemptingLogin (login_username s)]
       \<and> App w' = LoginView
       \<and> login_screen w' = Some (i, s\<lparr>login_error := ''Invalid credentials''\<rparr>)"
proof -
  have st: "stable w"
    using w by (simp add: stable_run stable_initial)
  let ?w1 = "step Submit w"
  have w1: "?w1 = w\<lparr>login_screen := Some (i, s\<lparr>login_loading := True, login_error := []\<rparr>),
             console := console w @ [AttemptingLogin (login_username s)],
             pending_login := pending_login w @ [(i, login_username s, login_password s)]\<rparr>"
    using st scr idle by (rule step_Submit)
  have st1: "stable ?w1"
    using st by (rule stable_step)
  have r: "login (login_username s) (login_password s) = Inl (Error ''Invalid credentials'')"
    using bad by (rule login_rejects)
  have k: "length (pending_login w) < length (pending_login ?w1)"
    by (simp add: w1)
  have f: "fst (pending_login ?w1 ! length (pending_login w)) = i"
    by (simp add: w1)
  have s1: "login_screen ?w1 = Some (i, s\<lparr>login_loading := True, login_error := []\<rparr>)"
    by (simp add: w1)
  have w2: "w' = ?w1\<lparr>pending_login := remove_nth (length (pending_login w)) (pending_login ?w1),
        login_screen := Some (i, s\<lparr>login_loading := True, login_error := [],
           login_error := message (Error ''Invalid credentials''), login_loading := False\<rparr>)\<rparr>"
    unfolding w' r using st1 k f s1 by (rule step_LoginSettles_rejected)
  have A: "App w = LoginView"
    using st scr by (rule stable_view)
  have eq: "s\<lparr>login_loading := True, login_error := [],
           login_error := ''Invalid credentials'', login_loading := False\<rparr>
         = s\<lparr>login_error := ''Invalid credentials''\<rparr>"
    using idle by (cases s) simp
  show ?thesis
    using A r eq by (simp add: w2 w1 remove_nth_def App_eq)
qed

theorem invalid_credentials_stay_logged_out_witness:
  "login ''testuser'' ''wrongpass'' = Inl (Error ''Invalid credentials'')
   \<and> token (run [ChangePassword ''wrongpass''] initial) = None
   \<and> token (step (LoginSettles 0 (login ''testuser'' ''wrongpass''))
        (step Submit (run [ChangePassword ''wrongpass''] initial))) = None
   \<and> user (step (LoginSettles 0 (login ''testuser'' ''wrongpass''))
        (step Submit (run [ChangePassword ''wrongpass''] initial))) = None
   \<and> pending_me (step (LoginSettles 0 (login ''testuser'' ''wrongpass''))
        (step Submit (run [ChangePassword ''wrongpass''] initial))) = []
   \<and> console (step (LoginSettles 0 (login ''testuser'' ''wrongpass''))
        (step Submit (run [ChangePassword ''wrongpass''] initial))) = [AttemptingLogin ''testuser'']
   \<and> App (step (LoginSettles 0 (login ''testuser'' ''wrongpass''))
        (step Submit (run [ChangePassword ''wrongpass''] initial))) = LoginView"
proof -
  let ?w = "run [ChangePassword ''wrongpass''] initial"
  let ?s = "login_init\<lparr>login_password := ''wrongpass''\<rparr>"
  have scr: "login_screen ?w = Some (0, ?s)"
    by (simp add: wrongpass_state)
  have idle: "\<not> login_loading ?s"
    by (simp add: login_init_def)
  have bad: "\<not> (login_username ?s = ''testuser'' \<and> login_password ?s = ''password'')"
    by (simp add: login_init_def)
  have r: "login (login_username ?s) (login_password ?s) = login ''testuser'' ''wrongpass''"
    by (simp add: login_init_def)
  have fields: "token ?w = None" "user ?w = None" "pending_me ?w = []" "console ?w = []"
    "length (pending_login ?w) = 0" "login_username ?s = ''testuser''"
    by (simp_all add: wrongpass_state login_init_def)
  from invalid_credentials_stay_logged_out [OF refl scr idle bad refl]
  show ?thesis
    by (elim conjE) (simp add: r fields)
qed

section \<open>Logout\<close>

text \<open>
  Claim C6, as stated: after Logout both the token and the user profile are cleared.
  After a complete sign-in the dashboard is on screen; clicking Logout clears the token
  and leaves the user profile in place.
\<close>

theorem logout_keeps_user_counterexample:
  "App (run session initial) = DashboardView
   \<and> token (step ClickLogout (run session initial)) = None
   \<and> user (step ClickLogout (run session initial)) \<noteq> None"
  by (simp add: session_state machine_defs api_defs)

text \<open>
  Claim C6, amended. In any state the application can reach in which the dashboard is on
  screen with its Logout button, clicking Logout sets the token to \<open>null\<close> in the same
  step and the application shows a fresh login screen; the stored user profile is not
  cleared, and no request is made.
\<close>

theorem logout_clears_token_only:
  assumes "w = run evs initial" and "dashboard w = Some (i, d)" and "\<not> dash_loading d"
  shows "token (step ClickLogout w) = None
       \<and> user (step ClickLogout w) = user w
       \<and> user (step ClickLogout w) \<noteq> None
       \<and> App (step ClickLogout w) = LoginView
       \<and> dashboard (step ClickLogout w) = None
       \<and> login_screen (step ClickLogout w) = Some (next_inst w, login_init)
       \<and> pending_me (step ClickLogout w) = pending_me w
       \<and> console (step ClickLogout w) = console w"
proof -
  have st: "stable w"
    using assms(1) by (simp add: stable_run stable_initial)
  have l: "\<not> loading w"
    using st by (simp add: stable_def)
  have u: "user w \<noteq> None"
    using st assms(2) by (simp add: stable_view)
  show ?thesis
    using l u by (simp add: step_ClickLogout [OF st assms(2,3)] App_eq truthy_def)
qed

theorem logout_clears_token_only_witness:
  "dashboard (run session initial)
     = Some (1, \<lparr>courses = projr getCourses,
          recommendations = projr (getRecommendations 1 (Some ''fake-jwt-token'')),
          dash_loading = False\<rparr>)
   \<and> token (step ClickLogout (run session initial)) = None
   \<and> user (step ClickLogout (run session initial))
       = Some (projr (getMe (Some ''fake-jwt-token'')))
   \<and> App (step ClickLogout (run session initial)) = LoginView"
proof -
  have d: "dashboard (run session initial)
     = Some (1, \<lparr>courses = projr getCourses,
          recommendations = projr (getRecommendations 1 (Some ''fake-jwt-token'')),
          dash_loading = False\<rparr>)"
    by (simp add: session_state)
  have l: "\<not> dash_loading \<lparr>courses = projr getCourses,
          recommendations = projr (getRecommendations 1 (Some ''fake-jwt-token'')),
          dash_loading = False\<rparr>"
    by simp
  from logout_clears_token_only [OF refl d l] d show ?thesis
    by (simp add: session_state)
qed

section \<open>Answers that arrive after the token was cleared\<close>




section \<open>The two dashboard requests\<close>




end
